theory Spec2Isabelle
  imports Main
begin

section \<open>The HDLC connection state machine of dlms\_cosem (protocol/hdlc/state.py)\<close>

subsection \<open>Sentinel states\<close>

text \<open>
  The eight module-level sentinels made by \<^verbatim>\<open>make_sentinel\<close>. Each is a singleton
  compared by identity, so a datatype with one constructor per sentinel has the same
  equality.
\<close>

datatype sentinel =
    NOT_CONNECTED
  | IDLE
  | AWAITING_RESPONSE
  | AWAITING_CONNECTION
  | SHOULD_SEND_READY_TO_RECEIVE
  | AWAITING_DISCONNECT
  | CLOSED
  | NEED_DATA

subsection \<open>Frames\<close>

text \<open>
  Modelled from the spec: the module \<^verbatim>\<open>dlms_cosem.protocol.hdlc.frames\<close> (the frame
  classes) is imported by state.py but is not part of the sources at hand. state.py names
  seven frame classes and reads three attributes of an \<^verbatim>\<open>InformationFrame\<close>; the spec
  (sections 3 and 6) gives the same closed set of seven kinds and says that an
  Information frame carries a boolean \<^verbatim>\<open>response_frame\<close> and two integers
  \<^verbatim>\<open>send_sequence_number\<close> and \<^verbatim>\<open>receive_sequence_number\<close>. The integers are
  Python integers; nothing in state.py restricts them, so they are unbounded here.
\<close>

datatype frame_type =
    SetNormalResponseModeFrame
  | UnNumberedAcknowledgmentFrame
  | InformationFrame
  | SegmentedInformationRequestFrame
  | SegmentedInformationResponseFrame
  | DisconnectFrame
  | ReceiveReadyFrame

datatype frame =
    mk_SetNormalResponseModeFrame
  | mk_UnNumberedAcknowledgmentFrame
  | mk_InformationFrame (response_frame: bool) (send_sequence_number: int)
      (receive_sequence_number: int)
  | mk_SegmentedInformationRequestFrame
  | mk_SegmentedInformationResponseFrame
  | mk_DisconnectFrame
  | mk_ReceiveReadyFrame

text \<open>Python's \<^verbatim>\<open>type(frame)\<close>.\<close>

fun type_of :: "frame \<Rightarrow> frame_type" where
  "type_of mk_SetNormalResponseModeFrame = SetNormalResponseModeFrame"
| "type_of mk_UnNumberedAcknowledgmentFrame = UnNumberedAcknowledgmentFrame"
| "type_of (mk_InformationFrame r s n) = InformationFrame"
| "type_of mk_SegmentedInformationRequestFrame = SegmentedInformationRequestFrame"
| "type_of mk_SegmentedInformationResponseFrame = SegmentedInformationResponseFrame"
| "type_of mk_DisconnectFrame = DisconnectFrame"
| "type_of mk_ReceiveReadyFrame = ReceiveReadyFrame"

subsection \<open>The transition table\<close>

text \<open>
  \<^verbatim>\<open>HDLC_STATE_TRANSITIONS\<close> is a dictionary of dictionaries: the outer one has six keys
  (\<^verbatim>\<open>CLOSED\<close> and \<^verbatim>\<open>NEED_DATA\<close> are not among them), the inner ones map frame classes
  to the next state.
\<close>

definition HDLC_STATE_TRANSITIONS :: "sentinel \<rightharpoonup> (frame_type \<rightharpoonup> sentinel)" where
  "HDLC_STATE_TRANSITIONS = [
     NOT_CONNECTED \<mapsto> [SetNormalResponseModeFrame \<mapsto> AWAITING_CONNECTION],
     AWAITING_CONNECTION \<mapsto> [UnNumberedAcknowledgmentFrame \<mapsto> IDLE],
     IDLE \<mapsto> [
       InformationFrame \<mapsto> AWAITING_RESPONSE,
       SegmentedInformationRequestFrame \<mapsto> AWAITING_RESPONSE,
       DisconnectFrame \<mapsto> AWAITING_DISCONNECT],
     AWAITING_RESPONSE \<mapsto> [
       InformationFrame \<mapsto> IDLE,
       SegmentedInformationResponseFrame \<mapsto> SHOULD_SEND_READY_TO_RECEIVE],
     SHOULD_SEND_READY_TO_RECEIVE \<mapsto> [ReceiveReadyFrame \<mapsto> AWAITING_RESPONSE],
     AWAITING_DISCONNECT \<mapsto> [UnNumberedAcknowledgmentFrame \<mapsto> NOT_CONNECTED]]"

text \<open>
  The subscript expression \<^verbatim>\<open>HDLC_STATE_TRANSITIONS[state][frame_type]\<close>: a
  \<^verbatim>\<open>KeyError\<close> of either subscript is the value \<open>None\<close>.
\<close>

definition lookup_transition :: "sentinel \<Rightarrow> frame_type \<Rightarrow> sentinel option" where
  "lookup_transition state ft =
     (case HDLC_STATE_TRANSITIONS state of
        None \<Rightarrow> None
      | Some inner \<Rightarrow> inner ft)"

subsection \<open>Errors and the log\<close>

text \<open>
  state.py raises one exception class, \<^verbatim>\<open>LocalProtocolError\<close>, at three kinds of
  place that differ in the message: the send sequence number check (the frame's number
  and the connection's), the receive sequence number check (the same), and the failed
  table lookup (the frame class and the current state).
\<close>

datatype LocalProtocolError =
    Send_Sequence_Number_does_not_correspond int int
  | Receive_Sequence_number_does_not_correspond int int
  | cant_handle_frame_type frame_type sentinel

text \<open>The two error kinds of the spec (section 7), as properties of the raised value.\<close>

fun is_SequenceMismatch :: "LocalProtocolError \<Rightarrow> bool" where
  "is_SequenceMismatch (Send_Sequence_Number_does_not_correspond a b) = True"
| "is_SequenceMismatch (Receive_Sequence_number_does_not_correspond a b) = True"
| "is_SequenceMismatch (cant_handle_frame_type ft st) = False"

fun is_IllegalTransition :: "LocalProtocolError \<Rightarrow> bool" where
  "is_IllegalTransition (cant_handle_frame_type ft st) = True"
| "is_IllegalTransition (Send_Sequence_Number_does_not_correspond a b) = False"
| "is_IllegalTransition (Receive_Sequence_number_does_not_correspond a b) = False"

text \<open>
  \<^verbatim>\<open>LOG.debug\<close> is the only effect outside the object: the log is the list of the
  (old state, new state) pairs written so far, newest last.
\<close>

type_synonym log = "(sentinel \<times> sentinel) list"

subsection \<open>The connection state\<close>

record HdlcConnectionState =
  current_state :: sentinel
  client_ssn :: int
  client_rsn :: int
  server_ssn :: int
  server_rsn :: int

text \<open>The attrs defaults: \<^verbatim>\<open>HdlcConnectionState()\<close>.\<close>

definition HdlcConnectionState_default :: HdlcConnectionState where
  "HdlcConnectionState_default =
     \<lparr>current_state = NOT_CONNECTED, client_ssn = 0, client_rsn = 0,
      server_ssn = 0, server_rsn = 0\<rparr>"

text \<open>
  A method that can raise returns the outcome (\<open>Inl\<close> the exception raised, \<open>Inr ()\<close> a
  normal return) together with the object as the method leaves it: the object is mutated
  in place, so what was assigned before a raise stays assigned.
\<close>

definition increment_server_rsn :: "HdlcConnectionState \<Rightarrow> HdlcConnectionState" where
  "increment_server_rsn self =
     (let self = self\<lparr>server_rsn := server_rsn self + 1\<rparr> in
      if server_rsn self > 7 then self\<lparr>server_rsn := 0\<rparr> else self)"

definition increment_server_ssn :: "HdlcConnectionState \<Rightarrow> HdlcConnectionState" where
  "increment_server_ssn self =
     (let self = self\<lparr>server_ssn := server_ssn self + 1\<rparr> in
      if server_ssn self > 7 then self\<lparr>server_ssn := 0\<rparr> else self)"

definition increment_client_rsn :: "HdlcConnectionState \<Rightarrow> HdlcConnectionState" where
  "increment_client_rsn self =
     (let self = self\<lparr>client_rsn := client_rsn self + 1\<rparr> in
      if client_rsn self > 7 then self\<lparr>client_rsn := 0\<rparr> else self)"

definition increment_client_ssn :: "HdlcConnectionState \<Rightarrow> HdlcConnectionState" where
  "increment_client_ssn self =
     (let self = self\<lparr>client_ssn := client_ssn self + 1\<rparr> in
      if client_ssn self > 7 then self\<lparr>client_ssn := 0\<rparr> else self)"

definition process_information_frame ::
  "frame \<Rightarrow> HdlcConnectionState \<Rightarrow> (LocalProtocolError + unit) \<times> HdlcConnectionState" where
  "process_information_frame frame self =
     (if response_frame frame then
        if \<not> send_sequence_number frame = client_ssn self then
          (Inl (Send_Sequence_Number_does_not_correspond
                  (send_sequence_number frame) (client_ssn self)), self)
        else if \<not> receive_sequence_number frame = client_rsn self then
          (Inl (Receive_Sequence_number_does_not_correspond
                  (receive_sequence_number frame) (client_rsn self)), self)
        else (Inr (), increment_client_ssn (increment_server_rsn self))
      else
        if \<not> send_sequence_number frame = server_ssn self then
          (Inl (Send_Sequence_Number_does_not_correspond
                  (send_sequence_number frame) (server_ssn self)), self)
        else if \<not> receive_sequence_number frame = server_rsn self then
          (Inl (Receive_Sequence_number_does_not_correspond
                  (receive_sequence_number frame) (server_rsn self)), self)
        else (Inr (), increment_client_rsn (increment_server_ssn self)))"

definition transition_state ::
  "frame_type \<Rightarrow> HdlcConnectionState \<times> log \<Rightarrow>
   (LocalProtocolError + unit) \<times> HdlcConnectionState \<times> log" where
  "transition_state ft w =
     (case w of (self, LOG) \<Rightarrow>
        (case lookup_transition (current_state self) ft of
           None \<Rightarrow> (Inl (cant_handle_frame_type ft (current_state self)), self, LOG)
         | Some new_state \<Rightarrow>
             (let old_state = current_state self in
              (Inr (), self\<lparr>current_state := new_state\<rparr>, LOG @ [(old_state, new_state)]))))"

definition process_frame ::
  "frame \<Rightarrow> HdlcConnectionState \<times> log \<Rightarrow>
   (LocalProtocolError + unit) \<times> HdlcConnectionState \<times> log" where
  "process_frame frame w =
     (case w of (self, LOG) \<Rightarrow>
        (let frame_type = type_of frame in
         if frame_type = InformationFrame then
           (case process_information_frame frame self of
              (Inl e, self') \<Rightarrow> (Inl e, self', LOG)
            | (Inr u, self') \<Rightarrow> transition_state (type_of frame) (self', LOG))
         else transition_state (type_of frame) (self, LOG)))"

subsection \<open>The spec's vocabulary\<close>

text \<open>
  The nine rows of the transition table as the spec prints it (section 4.1), and the
  lookup \<^verbatim>\<open>next_phase\<close> the spec describes over it. These follow the spec's words;
  \<open>lookup_transition\<close> above follows the code.
\<close>

definition transition_table_4_1 :: "((sentinel \<times> frame_type) \<times> sentinel) list" where
  "transition_table_4_1 = [
     ((NOT_CONNECTED, SetNormalResponseModeFrame), AWAITING_CONNECTION),
     ((AWAITING_CONNECTION, UnNumberedAcknowledgmentFrame), IDLE),
     ((IDLE, InformationFrame), AWAITING_RESPONSE),
     ((IDLE, SegmentedInformationRequestFrame), AWAITING_RESPONSE),
     ((IDLE, DisconnectFrame), AWAITING_DISCONNECT),
     ((AWAITING_RESPONSE, InformationFrame), IDLE),
     ((AWAITING_RESPONSE, SegmentedInformationResponseFrame), SHOULD_SEND_READY_TO_RECEIVE),
     ((SHOULD_SEND_READY_TO_RECEIVE, ReceiveReadyFrame), AWAITING_RESPONSE),
     ((AWAITING_DISCONNECT, UnNumberedAcknowledgmentFrame), NOT_CONNECTED)]"

definition next_phase_4_1 :: "sentinel \<Rightarrow> frame_type \<Rightarrow> sentinel option" where
  "next_phase_4_1 phase kind = map_of transition_table_4_1 (phase, kind)"

text \<open>
  Increment-with-wrap as each of the four increment methods performs it on its own
  counter: add one, and go back to 0 when the result is greater than 7.
\<close>

definition wrapped_successor :: "int \<Rightarrow> int" where
  "wrapped_successor n = (if n + 1 > 7 then 0 else n + 1)"

text \<open>The spec's range invariant: all four counters within 0..7.\<close>

definition counters_in_range :: "HdlcConnectionState \<Rightarrow> bool" where
  "counters_in_range self =
     (0 \<le> client_ssn self \<and> client_ssn self \<le> 7 \<and>
      0 \<le> client_rsn self \<and> client_rsn self \<le> 7 \<and>
      0 \<le> server_ssn self \<and> server_ssn self \<le> 7 \<and>
      0 \<le> server_rsn self \<and> server_rsn self \<le> 7)"

section \<open>Basic facts about the model\<close>

lemma lookup_transition_table: "lookup_transition p k = next_phase_4_1 p k"
  by (cases p; cases k;
      simp add: lookup_transition_def HDLC_STATE_TRANSITIONS_def next_phase_4_1_def
        transition_table_4_1_def)

lemma increment_server_rsn_eq:
  "increment_server_rsn self = self\<lparr>server_rsn := wrapped_successor (server_rsn self)\<rparr>"
  by (simp add: increment_server_rsn_def wrapped_successor_def Let_def)

lemma increment_server_ssn_eq:
  "increment_server_ssn self = self\<lparr>server_ssn := wrapped_successor (server_ssn self)\<rparr>"
  by (simp add: increment_server_ssn_def wrapped_successor_def Let_def)

lemma increment_client_rsn_eq:
  "increment_client_rsn self = self\<lparr>client_rsn := wrapped_successor (client_rsn self)\<rparr>"
  by (simp add: increment_client_rsn_def wrapped_successor_def Let_def)

lemma increment_client_ssn_eq:
  "increment_client_ssn self = self\<lparr>client_ssn := wrapped_successor (client_ssn self)\<rparr>"
  by (simp add: increment_client_ssn_def wrapped_successor_def Let_def)

lemmas increment_eqs =
  increment_server_rsn_eq increment_server_ssn_eq increment_client_rsn_eq
  increment_client_ssn_eq

lemma wrapped_successor_neq: "wrapped_successor n \<noteq> n"
  by (simp add: wrapped_successor_def)

lemma wrapped_successor_mod: "0 \<le> n \<Longrightarrow> n \<le> 7 \<Longrightarrow> wrapped_successor n = (n + 1) mod 8"
  by (simp add: wrapped_successor_def)

lemma wrapped_successor_range: "0 \<le> n \<Longrightarrow> 0 \<le> wrapped_successor n \<and> wrapped_successor n \<le> 7"
  by (simp add: wrapped_successor_def)

lemma type_of_InformationFrame:
  "type_of frame = InformationFrame \<Longrightarrow>
     \<exists>r s n. frame = mk_InformationFrame r s n"
  by (cases frame) simp_all


lemma process_frame_Information:
  "process_frame (mk_InformationFrame r s n) (self, LOG) =
     (case process_information_frame (mk_InformationFrame r s n) self of
        (Inl e, self') \<Rightarrow> (Inl e, self', LOG)
      | (Inr u, self') \<Rightarrow> transition_state InformationFrame (self', LOG))"
  by (simp add: process_frame_def Let_def split: prod.split sum.split)

lemma process_frame_other:
  "type_of frame \<noteq> InformationFrame \<Longrightarrow>
     process_frame frame (self, LOG) = transition_state (type_of frame) (self, LOG)"
  by (simp add: process_frame_def Let_def)

lemma transition_state_None:
  "lookup_transition (current_state self) ft = None \<Longrightarrow>
     transition_state ft (self, LOG) =
       (Inl (cant_handle_frame_type ft (current_state self)), self, LOG)"
  by (simp add: transition_state_def)

lemma transition_state_Some:
  "lookup_transition (current_state self) ft = Some new_state \<Longrightarrow>
     transition_state ft (self, LOG) =
       (Inr (), self\<lparr>current_state := new_state\<rparr>, LOG @ [(current_state self, new_state)])"
  by (simp add: transition_state_def Let_def)

lemma process_information_frame_current_state:
  "current_state (snd (process_information_frame frame self)) = current_state self"
  by (simp add: process_information_frame_def increment_eqs)

lemma process_information_frame_Inl:
  "fst (process_information_frame frame self) = Inl e \<Longrightarrow>
     is_SequenceMismatch e \<and> snd (process_information_frame frame self) = self"
  by (auto simp add: process_information_frame_def split: if_splits)

lemma process_information_frame_cases:
  "(\<exists>e. process_information_frame frame self = (Inl e, self) \<and> is_SequenceMismatch e) \<or>
   (\<exists>self'. process_information_frame frame self = (Inr (), self') \<and>
        current_state self' = current_state self)"
  by (simp add: process_information_frame_def increment_eqs)

lemma process_information_frame_range:
  "counters_in_range self \<Longrightarrow>
     counters_in_range (snd (process_information_frame frame self))"
  by (simp add: process_information_frame_def increment_eqs counters_in_range_def
        wrapped_successor_def)

lemma transition_state_counters:
  "transition_state ft (self, LOG) = (r, self', LOG') \<Longrightarrow>
     client_ssn self' = client_ssn self \<and> client_rsn self' = client_rsn self \<and>
     server_ssn self' = server_ssn self \<and> server_rsn self' = server_rsn self"
  by (auto simp add: transition_state_def Let_def split: option.splits)

lemma transition_state_range:
  "counters_in_range self \<Longrightarrow>
     counters_in_range (fst (snd (transition_state ft (self, LOG))))"
  using transition_state_counters [of ft self LOG]
  by (cases "transition_state ft (self, LOG)") (simp add: counters_in_range_def)

lemma transition_state_log:
  "fst (transition_state ft (self, LOG)) = fst (transition_state ft (self, [])) \<and>
   fst (snd (transition_state ft (self, LOG))) = fst (snd (transition_state ft (self, []))) \<and>
   snd (snd (transition_state ft (self, LOG))) =
     LOG @ snd (snd (transition_state ft (self, [])))"
  by (simp add: transition_state_def Let_def split: option.splits)

lemma process_frame_log:
  "fst (process_frame frame (self, LOG)) = fst (process_frame frame (self, [])) \<and>
   fst (snd (process_frame frame (self, LOG))) = fst (snd (process_frame frame (self, []))) \<and>
   snd (snd (process_frame frame (self, LOG))) =
     LOG @ snd (snd (process_frame frame (self, [])))"
proof (cases "type_of frame = InformationFrame")
  case False
  then have e: "process_frame frame (self, L) = transition_state (type_of frame) (self, L)"
    for L by (rule process_frame_other)
  show ?thesis
    unfolding e by (rule transition_state_log)
next
  case True
  then obtain r s n where f: "frame = mk_InformationFrame r s n"
    using type_of_InformationFrame by blast
  obtain res mid where pif: "process_information_frame frame self = (res, mid)"
    by (cases "process_information_frame frame self")
  show ?thesis
  proof (cases res)
    case (Inl e)
    then show ?thesis
      using pif unfolding f by (simp add: process_frame_Information)
  next
    case (Inr u)
    then have e: "process_frame frame (self, L) = transition_state InformationFrame (mid, L)"
      for L using pif unfolding f by (simp add: process_frame_Information)
    show ?thesis
      unfolding e by (rule transition_state_log)
  qed
qed

section \<open>The claims\<close>

text \<open>
  Claim C1, as amended. The code's table lookup agrees with the spec's table on every
  (phase, frame kind) pair: a listed pair yields exactly the listed next phase and every
  other pair is not found. For a pair that is not listed, \<open>process_frame\<close> raises and the
  phase is unchanged; the error is the illegal-transition error carrying the frame kind
  and the current phase, unless the frame is an Information frame that fails sequence
  validation: validation runs first, so that frame raises the sequence-mismatch error
  and the state is untouched.
\<close>

theorem untabulated_pair_is_rejected:
  "lookup_transition p k = next_phase_4_1 p k \<and>
   (next_phase_4_1 (current_state self) (type_of frame) = None \<longrightarrow>
      (\<exists>e self'. process_frame frame (self, LOG) = (Inl e, self', LOG) \<and>
         current_state self' = current_state self \<and>
         (if type_of frame = InformationFrame \<and>
             fst (process_information_frame frame self) \<noteq> Inr ()
          then is_SequenceMismatch e \<and> self' = self
          else e = cant_handle_frame_type (type_of frame) (current_state self))))"
proof (intro conjI impI)
  show "lookup_transition p k = next_phase_4_1 p k"
    by (rule lookup_transition_table)
next
  assume "next_phase_4_1 (current_state self) (type_of frame) = None"
  then have miss: "lookup_transition (current_state self) (type_of frame) = None"
    by (simp add: lookup_transition_table)
  show "\<exists>e self'. process_frame frame (self, LOG) = (Inl e, self', LOG) \<and>
         current_state self' = current_state self \<and>
         (if type_of frame = InformationFrame \<and>
             fst (process_information_frame frame self) \<noteq> Inr ()
          then is_SequenceMismatch e \<and> self' = self
          else e = cant_handle_frame_type (type_of frame) (current_state self))"
  proof (cases "type_of frame = InformationFrame")
    case False
    then show ?thesis
      using miss by (simp add: process_frame_other transition_state_None)
  next
    case True
    then obtain r s n where f: "frame = mk_InformationFrame r s n"
      using type_of_InformationFrame by blast
    from process_information_frame_cases [of frame self] show ?thesis
    proof (elim disjE exE conjE)
      fix e assume "process_information_frame frame self = (Inl e, self)"
        and "is_SequenceMismatch e"
      then show ?thesis
        using f by (simp add: process_frame_Information)
    next
      fix self' assume ok: "process_information_frame frame self = (Inr (), self')"
        and same: "current_state self' = current_state self"
      from miss same True
      have "lookup_transition (current_state self') InformationFrame = None"
        by simp
      then show ?thesis
        using f ok same by (simp add: process_frame_Information transition_state_None)
    qed
  qed
qed

theorem untabulated_pair_is_rejected_witness:
  "lookup_transition IDLE DisconnectFrame = next_phase_4_1 IDLE DisconnectFrame \<and>
   next_phase_4_1 (current_state HdlcConnectionState_default) (type_of mk_DisconnectFrame) = None \<and>
   process_frame mk_DisconnectFrame (HdlcConnectionState_default, []) =
     (Inl (cant_handle_frame_type DisconnectFrame NOT_CONNECTED), HdlcConnectionState_default, [])"
  using untabulated_pair_is_rejected
          [of IDLE DisconnectFrame HdlcConnectionState_default mk_DisconnectFrame "[]"]
  by (simp add: HdlcConnectionState_default_def next_phase_4_1_def transition_table_4_1_def
        process_frame_def transition_state_def lookup_transition_def
        HDLC_STATE_TRANSITIONS_def Let_def)

text \<open>
  Claim C1 as stated fails: in phase \<open>NOT_CONNECTED\<close> an Information frame whose send
  sequence number is 1 (the connection's is 0) is an unlisted pair, and the error raised
  is the sequence-mismatch one, not the illegal-transition one.
\<close>

theorem untabulated_information_frame_counterexample:
  "next_phase_4_1 NOT_CONNECTED InformationFrame = None \<and>
   current_state HdlcConnectionState_default = NOT_CONNECTED \<and>
   type_of (mk_InformationFrame False 1 0) = InformationFrame \<and>
   process_frame (mk_InformationFrame False 1 0) (HdlcConnectionState_default, []) =
     (Inl (Send_Sequence_Number_does_not_correspond 1 0), HdlcConnectionState_default, []) \<and>
   \<not> is_IllegalTransition (Send_Sequence_Number_does_not_correspond 1 0)"
  by (simp add: next_phase_4_1_def transition_table_4_1_def HdlcConnectionState_default_def
        process_frame_def process_information_frame_def Let_def)

text \<open>
  Claim C2. For every state and every Information frame with \<open>response_frame\<close> true: if
  the frame's send sequence number equals \<open>client_ssn\<close> and its receive sequence number
  equals \<open>client_rsn\<close>, validation succeeds and leaves the object with \<open>server_rsn\<close>
  incremented and then \<open>client_ssn\<close> incremented (each with wrap), and \<open>process_frame\<close>
  goes on to the table lookup from that object; otherwise \<open>process_frame\<close> fails with a
  sequence-mismatch error and the phase, the four counters and the log are unchanged.
\<close>
theorem response_frame_validation:
  assumes "type_of frame = InformationFrame" and "response_frame frame"
  shows "if send_sequence_number frame = client_ssn self \<and>
            receive_sequence_number frame = client_rsn self
         then process_information_frame frame self =
                (Inr (), increment_client_ssn (increment_server_rsn self)) \<and>
              increment_client_ssn (increment_server_rsn self) =
                self\<lparr>server_rsn := wrapped_successor (server_rsn self),
                     client_ssn := wrapped_successor (client_ssn self)\<rparr> \<and>
              process_frame frame (self, LOG) =
                transition_state InformationFrame
                  (increment_client_ssn (increment_server_rsn self), LOG)
         else \<exists>e. is_SequenceMismatch e \<and>
                process_frame frame (self, LOG) = (Inl e, self, LOG)"
proof -
  from assms(1) obtain r s n where f: "frame = mk_InformationFrame r s n"
    using type_of_InformationFrame by blast
  with assms(2) have r: "r" by simp
  show ?thesis
    unfolding f using r
    by (simp add: process_frame_Information process_information_frame_def increment_eqs)
qed

theorem response_frame_validation_witness:
  "type_of (mk_InformationFrame True 7 2) = InformationFrame \<and>
   response_frame (mk_InformationFrame True 7 2) \<and>
   process_information_frame (mk_InformationFrame True 7 2)
     \<lparr>current_state = AWAITING_RESPONSE, client_ssn = 7, client_rsn = 2,
      server_ssn = 4, server_rsn = 5\<rparr> =
     (Inr (), \<lparr>current_state = AWAITING_RESPONSE, client_ssn = 0, client_rsn = 2,
      server_ssn = 4, server_rsn = 6\<rparr>) \<and>
   process_frame (mk_InformationFrame True 3 0)
     (\<lparr>current_state = AWAITING_RESPONSE, client_ssn = 2, client_rsn = 0,
       server_ssn = 0, server_rsn = 0\<rparr>, []) =
     (Inl (Send_Sequence_Number_does_not_correspond 3 2),
      \<lparr>current_state = AWAITING_RESPONSE, client_ssn = 2, client_rsn = 0,
       server_ssn = 0, server_rsn = 0\<rparr>, [])"
  using response_frame_validation [of "mk_InformationFrame True 7 2"
          "\<lparr>current_state = AWAITING_RESPONSE, client_ssn = 7, client_rsn = 2,
            server_ssn = 4, server_rsn = 5\<rparr>" "[]"]
        response_frame_validation [of "mk_InformationFrame True 3 0"
          "\<lparr>current_state = AWAITING_RESPONSE, client_ssn = 2, client_rsn = 0,
            server_ssn = 0, server_rsn = 0\<rparr>" "[]"]
  by (simp add: wrapped_successor_def process_frame_def process_information_frame_def
        Let_def)

text \<open>
  Claim C3. For every state and every Information frame with \<open>response_frame\<close> false: if
  the frame's send sequence number equals \<open>server_ssn\<close> and its receive sequence number
  equals \<open>server_rsn\<close>, validation succeeds and leaves the object with \<open>server_ssn\<close>
  incremented and then \<open>client_rsn\<close> incremented (each with wrap), and \<open>process_frame\<close>
  goes on to the table lookup from that object; otherwise \<open>process_frame\<close> fails with a
  sequence-mismatch error and the phase, the four counters and the log are unchanged.
\<close>
theorem request_frame_validation:
  assumes "type_of frame = InformationFrame" and "\<not> response_frame frame"
  shows "if send_sequence_number frame = server_ssn self \<and>
            receive_sequence_number frame = server_rsn self
         then process_information_frame frame self =
                (Inr (), increment_client_rsn (increment_server_ssn self)) \<and>
              increment_client_rsn (increment_server_ssn self) =
                self\<lparr>server_ssn := wrapped_successor (server_ssn self),
                     client_rsn := wrapped_successor (client_rsn self)\<rparr> \<and>
              process_frame frame (self, LOG) =
                transition_state InformationFrame
                  (increment_client_rsn (increment_server_ssn self), LOG)
         else \<exists>e. is_SequenceMismatch e \<and>
                process_frame frame (self, LOG) = (Inl e, self, LOG)"
proof -
  from assms(1) obtain r s n where f: "frame = mk_InformationFrame r s n"
    using type_of_InformationFrame by blast
  with assms(2) have r: "\<not> r" by simp
  show ?thesis
    unfolding f using r
    by (simp add: process_frame_Information process_information_frame_def increment_eqs)
qed

theorem request_frame_validation_witness:
  "type_of (mk_InformationFrame False 7 2) = InformationFrame \<and>
   \<not> response_frame (mk_InformationFrame False 7 2) \<and>
   process_information_frame (mk_InformationFrame False 7 2)
     \<lparr>current_state = IDLE, client_ssn = 4, client_rsn = 5,
      server_ssn = 7, server_rsn = 2\<rparr> =
     (Inr (), \<lparr>current_state = IDLE, client_ssn = 4, client_rsn = 6,
      server_ssn = 0, server_rsn = 2\<rparr>) \<and>
   process_frame (mk_InformationFrame False 0 1)
     (\<lparr>current_state = IDLE, client_ssn = 0, client_rsn = 0,
       server_ssn = 0, server_rsn = 0\<rparr>, []) =
     (Inl (Receive_Sequence_number_does_not_correspond 1 0),
      \<lparr>current_state = IDLE, client_ssn = 0, client_rsn = 0,
       server_ssn = 0, server_rsn = 0\<rparr>, [])"
  using request_frame_validation [of "mk_InformationFrame False 7 2"
          "\<lparr>current_state = IDLE, client_ssn = 4, client_rsn = 5,
            server_ssn = 7, server_rsn = 2\<rparr>" "[]"]
        request_frame_validation [of "mk_InformationFrame False 0 1"
          "\<lparr>current_state = IDLE, client_ssn = 0, client_rsn = 0,
            server_ssn = 0, server_rsn = 0\<rparr>" "[]"]
  by (simp add: wrapped_successor_def process_frame_def process_information_frame_def
        Let_def)


text \<open>
  Claim C4. When an Information frame passes sequence validation and the pair (current
  phase, Information) has no table entry, \<open>process_frame\<close> raises the illegal-transition
  error for that phase and kind; the object it leaves behind is the one validation
  produced: the phase is unchanged, the two counters that validation incremented stay
  incremented (so the object differs from the one before the call) and nothing is rolled
  back. The lookup is made on the object as validation left it.
\<close>
theorem validated_frame_without_transition:
  assumes "type_of frame = InformationFrame"
    and "fst (process_information_frame frame self) = Inr ()"
    and "lookup_transition (current_state self) InformationFrame = None"
  shows "process_frame frame (self, LOG) =
           (Inl (cant_handle_frame_type InformationFrame (current_state self)),
            snd (process_information_frame frame self), LOG) \<and>
         snd (process_information_frame frame self) =
           (if response_frame frame
            then self\<lparr>server_rsn := wrapped_successor (server_rsn self),
                      client_ssn := wrapped_successor (client_ssn self)\<rparr>
            else self\<lparr>server_ssn := wrapped_successor (server_ssn self),
                      client_rsn := wrapped_successor (client_rsn self)\<rparr>) \<and>
         current_state (snd (process_information_frame frame self)) = current_state self \<and>
         snd (process_information_frame frame self) \<noteq> self"
proof -
  from assms(1) obtain r s n where f: "frame = mk_InformationFrame r s n"
    using type_of_InformationFrame by blast
  obtain self' where ok: "process_information_frame frame self = (Inr (), self')"
    using assms(2) by (cases "process_information_frame frame self") auto
  have same: "current_state self' = current_state self"
    using process_information_frame_current_state [of frame self] ok by simp
  have upd: "self' =
           (if response_frame frame
            then self\<lparr>server_rsn := wrapped_successor (server_rsn self),
                      client_ssn := wrapped_successor (client_ssn self)\<rparr>
            else self\<lparr>server_ssn := wrapped_successor (server_ssn self),
                      client_rsn := wrapped_successor (client_rsn self)\<rparr>)"
    using ok by (auto simp add: process_information_frame_def increment_eqs split: if_splits)
  have changed: "self' \<noteq> self"
  proof
    assume eq: "self' = self"
    show False
    proof (cases "response_frame frame")
      case True
      with upd have "server_rsn self' = wrapped_successor (server_rsn self)"
        by simp
      then show False using eq wrapped_successor_neq [of "server_rsn self"] by simp
    next
      case False
      with upd have "server_ssn self' = wrapped_successor (server_ssn self)"
        by simp
      then show False using eq wrapped_successor_neq [of "server_ssn self"] by simp
    qed
  qed
  have "process_frame frame (self, LOG) =
          (Inl (cant_handle_frame_type InformationFrame (current_state self)), self', LOG)"
    using ok same assms(3) unfolding f
    by (simp add: process_frame_Information transition_state_None)
  then show ?thesis
    using ok same upd changed by simp
qed


theorem validated_frame_without_transition_witness:
  "type_of (mk_InformationFrame False 0 0) = InformationFrame \<and>
   fst (process_information_frame (mk_InformationFrame False 0 0)
          HdlcConnectionState_default) = Inr () \<and>
   lookup_transition (current_state HdlcConnectionState_default) InformationFrame = None \<and>
   process_frame (mk_InformationFrame False 0 0) (HdlcConnectionState_default, []) =
     (Inl (cant_handle_frame_type InformationFrame NOT_CONNECTED),
      \<lparr>current_state = NOT_CONNECTED, client_ssn = 0, client_rsn = 1,
       server_ssn = 1, server_rsn = 0\<rparr>, [])"
proof -
  have h1: "type_of (mk_InformationFrame False 0 0) = InformationFrame"
    by simp
  have h2: "fst (process_information_frame (mk_InformationFrame False 0 0)
              HdlcConnectionState_default) = Inr ()"
    by (simp add: process_information_frame_def HdlcConnectionState_default_def)
  have h3: "lookup_transition (current_state HdlcConnectionState_default) InformationFrame
              = None"
    by (simp add: lookup_transition_def HDLC_STATE_TRANSITIONS_def
          HdlcConnectionState_default_def)
  show ?thesis
    using h1 h2 h3 validated_frame_without_transition [OF h1 h2 h3, of "[]"]
    by (simp add: HdlcConnectionState_default_def wrapped_successor_def)
qed

text \<open>
  Claim C5, as amended. A successful call of \<open>process_frame\<close> on an Information frame
  advances exactly two counters, one send counter and the receive counter of the other
  side: \<open>client_ssn\<close> and \<open>server_rsn\<close> when \<open>response_frame\<close> is true, \<open>server_ssn\<close> and
  \<open>client_rsn\<close> when it is false. Each advanced counter changes value, and the other two
  counters are unchanged.
\<close>
theorem information_frame_advances_crossed_pair:
  assumes "type_of frame = InformationFrame"
    and "process_frame frame (self, LOG) = (Inr (), self', LOG')"
  shows "if response_frame frame
         then client_ssn self' = wrapped_successor (client_ssn self) \<and>
              server_rsn self' = wrapped_successor (server_rsn self) \<and>
              client_ssn self' \<noteq> client_ssn self \<and>
              server_rsn self' \<noteq> server_rsn self \<and>
              client_rsn self' = client_rsn self \<and>
              server_ssn self' = server_ssn self
         else server_ssn self' = wrapped_successor (server_ssn self) \<and>
              client_rsn self' = wrapped_successor (client_rsn self) \<and>
              server_ssn self' \<noteq> server_ssn self \<and>
              client_rsn self' \<noteq> client_rsn self \<and>
              client_ssn self' = client_ssn self \<and>
              server_rsn self' = server_rsn self"
proof -
  from assms(1) obtain r s n where f: "frame = mk_InformationFrame r s n"
    using type_of_InformationFrame by blast
  from assms(2) obtain mid new_state where
    ok: "process_information_frame frame self = (Inr (), mid)"
    and tr: "lookup_transition (current_state mid) InformationFrame = Some new_state"
    and res: "self' = mid\<lparr>current_state := new_state\<rparr>"
    unfolding f
    by (auto simp add: process_frame_Information transition_state_def Let_def
          split: prod.splits sum.splits option.splits)
  have upd: "mid =
           (if response_frame frame
            then self\<lparr>server_rsn := wrapped_successor (server_rsn self),
                      client_ssn := wrapped_successor (client_ssn self)\<rparr>
            else self\<lparr>server_ssn := wrapped_successor (server_ssn self),
                      client_rsn := wrapped_successor (client_rsn self)\<rparr>)"
    using ok by (auto simp add: process_information_frame_def increment_eqs split: if_splits)
  show ?thesis
    using res upd by (simp add: wrapped_successor_neq)
qed

theorem information_frame_advances_crossed_pair_witness:
  "type_of (mk_InformationFrame False 0 0) = InformationFrame \<and>
   process_frame (mk_InformationFrame False 0 0)
     (\<lparr>current_state = IDLE, client_ssn = 0, client_rsn = 7,
       server_ssn = 0, server_rsn = 0\<rparr>, []) =
     (Inr (), \<lparr>current_state = AWAITING_RESPONSE, client_ssn = 0, client_rsn = 0,
       server_ssn = 1, server_rsn = 0\<rparr>, [(IDLE, AWAITING_RESPONSE)]) \<and>
   wrapped_successor 0 = 1 \<and> wrapped_successor 7 = 0"
proof -
  have h1: "type_of (mk_InformationFrame False 0 0) = InformationFrame"
    by simp
  have h2: "process_frame (mk_InformationFrame False 0 0)
     (\<lparr>current_state = IDLE, client_ssn = 0, client_rsn = 7,
       server_ssn = 0, server_rsn = 0\<rparr>, []) =
     (Inr (), \<lparr>current_state = AWAITING_RESPONSE, client_ssn = 0, client_rsn = 0,
       server_ssn = 1, server_rsn = 0\<rparr>, [(IDLE, AWAITING_RESPONSE)])"
    by (simp add: process_frame_def process_information_frame_def transition_state_def
          lookup_transition_def HDLC_STATE_TRANSITIONS_def Let_def
          increment_server_ssn_def increment_client_rsn_def)
  show ?thesis
    using h1 h2 information_frame_advances_crossed_pair [OF h1 h2]
    by simp
qed

text \<open>
  Claim C5 as stated fails: from \<open>IDLE\<close> with all counters 0, a successful Information
  frame with \<open>response_frame\<close> true advances \<open>client_ssn\<close> and \<open>server_rsn\<close>. Neither the
  client pair (\<open>client_ssn\<close>, \<open>client_rsn\<close>) nor the server pair (\<open>server_ssn\<close>,
  \<open>server_rsn\<close>) is advanced as a pair, and neither pair is left unchanged.
\<close>

theorem information_frame_pair_counterexample:
  "type_of (mk_InformationFrame True 0 0) = InformationFrame \<and>
   process_frame (mk_InformationFrame True 0 0)
     (\<lparr>current_state = IDLE, client_ssn = 0, client_rsn = 0,
       server_ssn = 0, server_rsn = 0\<rparr>, []) =
     (Inr (), \<lparr>current_state = AWAITING_RESPONSE, client_ssn = 1, client_rsn = 0,
       server_ssn = 0, server_rsn = 1\<rparr>, [(IDLE, AWAITING_RESPONSE)]) \<and>
   \<not> (client_ssn (fst (snd (process_frame (mk_InformationFrame True 0 0)
          (\<lparr>current_state = IDLE, client_ssn = 0, client_rsn = 0,
            server_ssn = 0, server_rsn = 0\<rparr>, [])))) \<noteq> 0 \<and>
       client_rsn (fst (snd (process_frame (mk_InformationFrame True 0 0)
          (\<lparr>current_state = IDLE, client_ssn = 0, client_rsn = 0,
            server_ssn = 0, server_rsn = 0\<rparr>, [])))) \<noteq> 0) \<and>
   \<not> (server_ssn (fst (snd (process_frame (mk_InformationFrame True 0 0)
          (\<lparr>current_state = IDLE, client_ssn = 0, client_rsn = 0,
            server_ssn = 0, server_rsn = 0\<rparr>, [])))) \<noteq> 0 \<and>
       server_rsn (fst (snd (process_frame (mk_InformationFrame True 0 0)
          (\<lparr>current_state = IDLE, client_ssn = 0, client_rsn = 0,
            server_ssn = 0, server_rsn = 0\<rparr>, [])))) \<noteq> 0)"
  by (simp add: process_frame_def process_information_frame_def transition_state_def
        lookup_transition_def HDLC_STATE_TRANSITIONS_def Let_def
        increment_server_rsn_def increment_client_ssn_def)

text \<open>
  Claim C6. The claim expects the happy path to end, after the Information request, in
  \<open>AWAITING_RESPONSE\<close> with \<open>server_rsn = 1\<close> and \<open>client_ssn = 1\<close>, which is also what the
  docstring of \<^verbatim>\<open>_process_information_frame\<close> describes for a request (the frame is
  compared with the client's numbers and the server's receive number becomes one higher).
  The code diverges at the third step. From the default state a SetNormalResponseMode
  frame gives \<open>AWAITING_CONNECTION\<close> and an UnNumberedAcknowledgment frame gives \<open>IDLE\<close>,
  as expected; the Information frame with \<open>response_frame\<close> false and both sequence
  numbers 0 then succeeds and gives \<open>AWAITING_RESPONSE\<close>, but the counters it advances
  are \<open>server_ssn\<close> and \<open>client_rsn\<close>: \<open>server_rsn\<close> and \<open>client_ssn\<close> are still 0. The
  theorem evaluates the code on this run.
\<close>

theorem happy_path_request_diverges:
  "process_frame mk_SetNormalResponseModeFrame (HdlcConnectionState_default, []) =
     (Inr (), \<lparr>current_state = AWAITING_CONNECTION, client_ssn = 0, client_rsn = 0,
       server_ssn = 0, server_rsn = 0\<rparr>, [(NOT_CONNECTED, AWAITING_CONNECTION)]) \<and>
   process_frame mk_UnNumberedAcknowledgmentFrame
     (\<lparr>current_state = AWAITING_CONNECTION, client_ssn = 0, client_rsn = 0,
       server_ssn = 0, server_rsn = 0\<rparr>, [(NOT_CONNECTED, AWAITING_CONNECTION)]) =
     (Inr (), \<lparr>current_state = IDLE, client_ssn = 0, client_rsn = 0,
       server_ssn = 0, server_rsn = 0\<rparr>,
      [(NOT_CONNECTED, AWAITING_CONNECTION), (AWAITING_CONNECTION, IDLE)]) \<and>
   process_frame (mk_InformationFrame False 0 0)
     (\<lparr>current_state = IDLE, client_ssn = 0, client_rsn = 0,
       server_ssn = 0, server_rsn = 0\<rparr>,
      [(NOT_CONNECTED, AWAITING_CONNECTION), (AWAITING_CONNECTION, IDLE)]) =
     (Inr (), \<lparr>current_state = AWAITING_RESPONSE, client_ssn = 0, client_rsn = 1,
       server_ssn = 1, server_rsn = 0\<rparr>,
      [(NOT_CONNECTED, AWAITING_CONNECTION), (AWAITING_CONNECTION, IDLE),
       (IDLE, AWAITING_RESPONSE)])"
  by (simp add: HdlcConnectionState_default_def process_frame_def
        process_information_frame_def transition_state_def
        lookup_transition_def HDLC_STATE_TRANSITIONS_def Let_def
        increment_server_ssn_def increment_client_rsn_def)

text \<open>
  Claim C7, as amended. A rejected call never changes the phase and writes nothing to the
  log. If the rejected frame is an Information frame that passed sequence validation, the
  error is the illegal-transition one and the object is left as validation produced it,
  with exactly the two validated counters advanced. In every other rejected call the
  object is left untouched, and calling \<open>process_frame\<close> again with the same frame gives
  the same error and again leaves the object untouched.
\<close>
theorem rejection_mutates_only_validated_counters:
  assumes "process_frame frame (self, LOG) = (Inl e, self', LOG')"
  shows "current_state self' = current_state self \<and> LOG' = LOG \<and>
         (if type_of frame = InformationFrame \<and>
             fst (process_information_frame frame self) = Inr ()
          then e = cant_handle_frame_type InformationFrame (current_state self) \<and>
               self' = snd (process_information_frame frame self) \<and>
               self' =
                 (if response_frame frame
                  then self\<lparr>server_rsn := wrapped_successor (server_rsn self),
                            client_ssn := wrapped_successor (client_ssn self)\<rparr>
                  else self\<lparr>server_ssn := wrapped_successor (server_ssn self),
                            client_rsn := wrapped_successor (client_rsn self)\<rparr>)
          else self' = self \<and>
               process_frame frame (self', LOG') = (Inl e, self', LOG'))"
proof (cases "type_of frame = InformationFrame")
  case False
  with assms have tr: "transition_state (type_of frame) (self, LOG) = (Inl e, self', LOG')"
    by (simp add: process_frame_other)
  then have "self' = self \<and> LOG' = LOG"
    by (auto simp add: transition_state_def Let_def split: option.splits)
  with assms False show ?thesis by simp
next
  case True
  then obtain r s n where f: "frame = mk_InformationFrame r s n"
    using type_of_InformationFrame by blast
  show ?thesis
  proof (cases "fst (process_information_frame frame self) = Inr ()")
    case ok: True
    then obtain mid where mid: "process_information_frame frame self = (Inr (), mid)"
      by (cases "process_information_frame frame self") auto
    have same: "current_state mid = current_state self"
      using process_information_frame_current_state [of frame self] mid by simp
    have upd: "mid =
           (if response_frame frame
            then self\<lparr>server_rsn := wrapped_successor (server_rsn self),
                      client_ssn := wrapped_successor (client_ssn self)\<rparr>
            else self\<lparr>server_ssn := wrapped_successor (server_ssn self),
                      client_rsn := wrapped_successor (client_rsn self)\<rparr>)"
      using mid
      by (auto simp add: process_information_frame_def increment_eqs split: if_splits)
    from assms mid have "transition_state InformationFrame (mid, LOG) = (Inl e, self', LOG')"
      unfolding f by (simp add: process_frame_Information)
    then have "self' = mid \<and> LOG' = LOG \<and>
               e = cant_handle_frame_type InformationFrame (current_state mid)"
      by (auto simp add: transition_state_def Let_def split: option.splits)
    with True ok mid same upd show ?thesis by simp
  next
    case bad: False
    from process_information_frame_cases [of frame self] bad
    obtain e' where e': "process_information_frame frame self = (Inl e', self)"
      by auto
    with assms have "e = e' \<and> self' = self \<and> LOG' = LOG"
      unfolding f by (simp add: process_frame_Information)
    with assms bad show ?thesis by simp
  qed
qed

theorem rejection_mutates_only_validated_counters_witness:
  "process_frame mk_ReceiveReadyFrame
     (\<lparr>current_state = IDLE, client_ssn = 3, client_rsn = 4,
       server_ssn = 5, server_rsn = 6\<rparr>, []) =
     (Inl (cant_handle_frame_type ReceiveReadyFrame IDLE),
      \<lparr>current_state = IDLE, client_ssn = 3, client_rsn = 4,
       server_ssn = 5, server_rsn = 6\<rparr>, []) \<and>
   type_of mk_ReceiveReadyFrame \<noteq> InformationFrame"
proof -
  have h: "process_frame mk_ReceiveReadyFrame
     (\<lparr>current_state = IDLE, client_ssn = 3, client_rsn = 4,
       server_ssn = 5, server_rsn = 6\<rparr>, []) =
     (Inl (cant_handle_frame_type ReceiveReadyFrame IDLE),
      \<lparr>current_state = IDLE, client_ssn = 3, client_rsn = 4,
       server_ssn = 5, server_rsn = 6\<rparr>, [])"
    by (simp add: process_frame_def transition_state_def
          lookup_transition_def HDLC_STATE_TRANSITIONS_def Let_def)
  show ?thesis
    using h rejection_mutates_only_validated_counters [OF h] by simp
qed

text \<open>
  Claim C7 as stated fails: from the default state an Information frame with
  \<open>response_frame\<close> false and sequence numbers 0, 0 is rejected with the
  illegal-transition error, yet \<open>server_ssn\<close> and \<open>client_rsn\<close> are now 1; the same frame
  processed again on that object is rejected with a different error.
\<close>

theorem rejection_partially_mutates_counterexample:
  "process_frame (mk_InformationFrame False 0 0) (HdlcConnectionState_default, []) =
     (Inl (cant_handle_frame_type InformationFrame NOT_CONNECTED),
      \<lparr>current_state = NOT_CONNECTED, client_ssn = 0, client_rsn = 1,
       server_ssn = 1, server_rsn = 0\<rparr>, []) \<and>
   \<lparr>current_state = NOT_CONNECTED, client_ssn = 0, client_rsn = 1,
     server_ssn = 1, server_rsn = 0\<rparr> \<noteq> HdlcConnectionState_default \<and>
   process_frame (mk_InformationFrame False 0 0)
     (\<lparr>current_state = NOT_CONNECTED, client_ssn = 0, client_rsn = 1,
       server_ssn = 1, server_rsn = 0\<rparr>, []) =
     (Inl (Send_Sequence_Number_does_not_correspond 0 1),
      \<lparr>current_state = NOT_CONNECTED, client_ssn = 0, client_rsn = 1,
       server_ssn = 1, server_rsn = 0\<rparr>, []) \<and>
   cant_handle_frame_type InformationFrame NOT_CONNECTED \<noteq>
     Send_Sequence_Number_does_not_correspond 0 1"
  by (simp add: HdlcConnectionState_default_def process_frame_def
        process_information_frame_def transition_state_def
        lookup_transition_def HDLC_STATE_TRANSITIONS_def Let_def
        increment_server_ssn_def increment_client_rsn_def)


text \<open>
  Claim C8. If all four counters are within 0..7 before a call of \<open>process_frame\<close>, they
  are within 0..7 after it, whether the call returns or raises. Each of the four
  increment methods maps a counter value \<open>n\<close> within 0..7 to \<open>(n + 1) mod 8\<close>; in
  particular 7 becomes 0.
\<close>
theorem counters_stay_in_range:
  "(counters_in_range self \<longrightarrow>
      counters_in_range (fst (snd (process_frame frame (self, LOG))))) \<and>
   (0 \<le> n \<and> n \<le> 7 \<longrightarrow>
      server_rsn (increment_server_rsn (self\<lparr>server_rsn := n\<rparr>)) = (n + 1) mod 8 \<and>
      server_ssn (increment_server_ssn (self\<lparr>server_ssn := n\<rparr>)) = (n + 1) mod 8 \<and>
      client_rsn (increment_client_rsn (self\<lparr>client_rsn := n\<rparr>)) = (n + 1) mod 8 \<and>
      client_ssn (increment_client_ssn (self\<lparr>client_ssn := n\<rparr>)) = (n + 1) mod 8) \<and>
   server_rsn (increment_server_rsn (self\<lparr>server_rsn := 7\<rparr>)) = 0 \<and>
   server_ssn (increment_server_ssn (self\<lparr>server_ssn := 7\<rparr>)) = 0 \<and>
   client_rsn (increment_client_rsn (self\<lparr>client_rsn := 7\<rparr>)) = 0 \<and>
   client_ssn (increment_client_ssn (self\<lparr>client_ssn := 7\<rparr>)) = 0"
proof -
  have range: "counters_in_range (fst (snd (process_frame frame (self, LOG))))"
    if inv: "counters_in_range self"
  proof (cases "type_of frame = InformationFrame")
    case False
    then show ?thesis
      using inv by (simp add: process_frame_other transition_state_range)
  next
    case True
    then obtain r s m where f: "frame = mk_InformationFrame r s m"
      using type_of_InformationFrame by blast
    obtain res mid where pif: "process_information_frame frame self = (res, mid)"
      by (cases "process_information_frame frame self")
    have mid: "counters_in_range mid"
      using process_information_frame_range [OF inv, of frame] pif by simp
    show ?thesis
    proof (cases res)
      case (Inl e)
      then show ?thesis
        using pif mid unfolding f by (simp add: process_frame_Information)
    next
      case (Inr u)
      then show ?thesis
        using pif transition_state_range [OF mid, of InformationFrame LOG] unfolding f
        by (simp add: process_frame_Information)
    qed
  qed
  have single: "wrapped_successor n = (n + 1) mod 8" if "0 \<le> n \<and> n \<le> 7"
    using that by (simp add: wrapped_successor_mod)
  have seven: "wrapped_successor 7 = 0"
    by (simp add: wrapped_successor_def)
  show ?thesis
    using range single seven by (simp add: increment_eqs)
qed

theorem counters_stay_in_range_witness:
  "counters_in_range \<lparr>current_state = AWAITING_RESPONSE, client_ssn = 7, client_rsn = 0,
     server_ssn = 3, server_rsn = 7\<rparr> \<and>
   (0::int) \<le> 7 \<and> (7::int) \<le> 7 \<and>
   process_frame (mk_InformationFrame True 7 0)
     (\<lparr>current_state = AWAITING_RESPONSE, client_ssn = 7, client_rsn = 0,
       server_ssn = 3, server_rsn = 7\<rparr>, []) =
     (Inr (), \<lparr>current_state = IDLE, client_ssn = 0, client_rsn = 0,
       server_ssn = 3, server_rsn = 0\<rparr>, [(AWAITING_RESPONSE, IDLE)]) \<and>
   counters_in_range \<lparr>current_state = IDLE, client_ssn = 0, client_rsn = 0,
     server_ssn = 3, server_rsn = 0\<rparr>"
proof -
  have h: "counters_in_range \<lparr>current_state = AWAITING_RESPONSE, client_ssn = 7,
     client_rsn = 0, server_ssn = 3, server_rsn = 7\<rparr>"
    by (simp add: counters_in_range_def)
  have run: "process_frame (mk_InformationFrame True 7 0)
     (\<lparr>current_state = AWAITING_RESPONSE, client_ssn = 7, client_rsn = 0,
       server_ssn = 3, server_rsn = 7\<rparr>, []) =
     (Inr (), \<lparr>current_state = IDLE, client_ssn = 0, client_rsn = 0,
       server_ssn = 3, server_rsn = 0\<rparr>, [(AWAITING_RESPONSE, IDLE)])"
    by (simp add: process_frame_def process_information_frame_def transition_state_def
          lookup_transition_def HDLC_STATE_TRANSITIONS_def Let_def
          increment_server_rsn_def increment_client_ssn_def)
  show ?thesis
    using h run
      counters_stay_in_range [of "\<lparr>current_state = AWAITING_RESPONSE, client_ssn = 7,
        client_rsn = 0, server_ssn = 3, server_rsn = 7\<rparr>" "mk_InformationFrame True 7 0"
        "[]" 7]
    by simp
qed

text \<open>
  Claim C9. For a frame whose kind is not Information, \<open>process_frame\<close> is the table
  lookup alone (no sequence validation), all four counters are unchanged whether the call
  returns or raises, and the only error it can raise is the illegal-transition one.
\<close>
theorem other_frames_leave_counters:
  assumes "type_of frame \<noteq> InformationFrame"
  shows "process_frame frame (self, LOG) = transition_state (type_of frame) (self, LOG) \<and>
         client_ssn (fst (snd (process_frame frame (self, LOG)))) = client_ssn self \<and>
         client_rsn (fst (snd (process_frame frame (self, LOG)))) = client_rsn self \<and>
         server_ssn (fst (snd (process_frame frame (self, LOG)))) = server_ssn self \<and>
         server_rsn (fst (snd (process_frame frame (self, LOG)))) = server_rsn self \<and>
         (case fst (process_frame frame (self, LOG)) of
            Inl e \<Rightarrow> e = cant_handle_frame_type (type_of frame) (current_state self)
          | Inr u \<Rightarrow> True)"
proof -
  have eq: "process_frame frame (self, LOG) = transition_state (type_of frame) (self, LOG)"
    using assms by (rule process_frame_other)
  obtain r self' LOG' where
    tr: "transition_state (type_of frame) (self, LOG) = (r, self', LOG')"
    by (cases "transition_state (type_of frame) (self, LOG)")
  have err: "case r of
               Inl e \<Rightarrow> e = cant_handle_frame_type (type_of frame) (current_state self)
             | Inr u \<Rightarrow> True"
    using tr by (auto simp add: transition_state_def Let_def split: option.splits)
  show ?thesis
    using eq tr transition_state_counters [OF tr] err by simp
qed

theorem other_frames_leave_counters_witness:
  "type_of mk_SegmentedInformationResponseFrame \<noteq> InformationFrame \<and>
   process_frame mk_SegmentedInformationResponseFrame
     (\<lparr>current_state = AWAITING_RESPONSE, client_ssn = 1, client_rsn = 2,
       server_ssn = 3, server_rsn = 4\<rparr>, []) =
     (Inr (), \<lparr>current_state = SHOULD_SEND_READY_TO_RECEIVE, client_ssn = 1,
       client_rsn = 2, server_ssn = 3, server_rsn = 4\<rparr>,
      [(AWAITING_RESPONSE, SHOULD_SEND_READY_TO_RECEIVE)])"
proof -
  have h: "type_of mk_SegmentedInformationResponseFrame \<noteq> InformationFrame"
    by simp
  show ?thesis
    using h other_frames_leave_counters [OF h,
        of "\<lparr>current_state = AWAITING_RESPONSE, client_ssn = 1, client_rsn = 2,
             server_ssn = 3, server_rsn = 4\<rparr>" "[]"]
    by (simp add: transition_state_def lookup_transition_def HDLC_STATE_TRANSITIONS_def
          Let_def)
qed

text \<open>
  Claim C10. \<open>process_frame\<close> is deterministic and independent of the log: two calls on
  states with equal phase and equal counters, with frames of the same kind and (for
  Information frames) equal flag and sequence numbers, give the same outcome (the same
  error or the same normal return) and the same resulting object, whatever the two logs
  hold; the call only appends to the log it is given.
\<close>
theorem process_frame_deterministic:
  assumes "current_state s1 = current_state s2"
    and "client_ssn s1 = client_ssn s2" and "client_rsn s1 = client_rsn s2"
    and "server_ssn s1 = server_ssn s2" and "server_rsn s1 = server_rsn s2"
    and "type_of f1 = type_of f2"
    and "type_of f1 = InformationFrame \<longrightarrow>
           response_frame f1 = response_frame f2 \<and>
           send_sequence_number f1 = send_sequence_number f2 \<and>
           receive_sequence_number f1 = receive_sequence_number f2"
  shows "fst (process_frame f1 (s1, LOG1)) = fst (process_frame f2 (s2, LOG2)) \<and>
         fst (snd (process_frame f1 (s1, LOG1))) = fst (snd (process_frame f2 (s2, LOG2))) \<and>
         snd (snd (process_frame f1 (s1, LOG1))) =
           LOG1 @ snd (snd (process_frame f1 (s1, []))) \<and>
         snd (snd (process_frame f2 (s2, LOG2))) =
           LOG2 @ snd (snd (process_frame f1 (s1, [])))"
proof -
  have s: "s1 = s2"
    using assms(1-5) by simp
  have f: "f1 = f2"
    using assms(6,7) by (cases f1; cases f2) simp_all
  show ?thesis
    unfolding s f
    using process_frame_log [of f2 s2 LOG1] process_frame_log [of f2 s2 LOG2]
    by simp
qed


theorem process_frame_deterministic_witness:
  "fst (process_frame (mk_InformationFrame False 0 0)
          (HdlcConnectionState_default\<lparr>current_state := IDLE\<rparr>, [])) =
   fst (process_frame (mk_InformationFrame False 0 0)
          (HdlcConnectionState_default\<lparr>current_state := IDLE\<rparr>, [(CLOSED, NEED_DATA)])) \<and>
   fst (snd (process_frame (mk_InformationFrame False 0 0)
          (HdlcConnectionState_default\<lparr>current_state := IDLE\<rparr>, []))) =
   fst (snd (process_frame (mk_InformationFrame False 0 0)
          (HdlcConnectionState_default\<lparr>current_state := IDLE\<rparr>, [(CLOSED, NEED_DATA)]))) \<and>
   process_frame (mk_InformationFrame False 0 0)
          (HdlcConnectionState_default\<lparr>current_state := IDLE\<rparr>, [(CLOSED, NEED_DATA)]) =
     (Inr (), \<lparr>current_state = AWAITING_RESPONSE, client_ssn = 0, client_rsn = 1,
       server_ssn = 1, server_rsn = 0\<rparr>, [(CLOSED, NEED_DATA), (IDLE, AWAITING_RESPONSE)])"
proof -
  have run: "process_frame (mk_InformationFrame False 0 0)
          (HdlcConnectionState_default\<lparr>current_state := IDLE\<rparr>, [(CLOSED, NEED_DATA)]) =
     (Inr (), \<lparr>current_state = AWAITING_RESPONSE, client_ssn = 0, client_rsn = 1,
       server_ssn = 1, server_rsn = 0\<rparr>, [(CLOSED, NEED_DATA), (IDLE, AWAITING_RESPONSE)])"
    by (simp add: HdlcConnectionState_default_def process_frame_def
        process_information_frame_def transition_state_def
        lookup_transition_def HDLC_STATE_TRANSITIONS_def Let_def
        increment_server_ssn_def increment_client_rsn_def)
  have det: "fst (process_frame (mk_InformationFrame False 0 0)
          (HdlcConnectionState_default\<lparr>current_state := IDLE\<rparr>, [])) =
   fst (process_frame (mk_InformationFrame False 0 0)
          (HdlcConnectionState_default\<lparr>current_state := IDLE\<rparr>, [(CLOSED, NEED_DATA)])) \<and>
   fst (snd (process_frame (mk_InformationFrame False 0 0)
          (HdlcConnectionState_default\<lparr>current_state := IDLE\<rparr>, []))) =
   fst (snd (process_frame (mk_InformationFrame False 0 0)
          (HdlcConnectionState_default\<lparr>current_state := IDLE\<rparr>, [(CLOSED, NEED_DATA)])))"
    using process_frame_deterministic
            [of "HdlcConnectionState_default\<lparr>current_state := IDLE\<rparr>"
                "HdlcConnectionState_default\<lparr>current_state := IDLE\<rparr>"
                "mk_InformationFrame False 0 0" "mk_InformationFrame False 0 0"
                "[]" "[(CLOSED, NEED_DATA)]"]
    by simp
  show ?thesis
    using run det by (simp only: simp_thms)
qed

end
